theory Spec2Isabelle
  imports Complex_Main "HOL-Library.Char_ord" "HOL-Library.List_Lexorder"
    "HOL-Library.Product_Lexorder"
begin

section \<open>Data model\<close>

text \<open>
  The dashboard of \<open>app.py\<close> works on pandas data frames. A frame is modelled as the list
  of its rows, in index order. The three identity columns are strings; a numeric cell is a
  rational number or missing (\<open>None\<close> for pandas' NaN). Floating-point rounding of the
  values is not modelled: \<open>Value\<close> is an exact rational.
\<close>

record ident =
  Country :: string
  Features :: string
  Region :: string

text \<open>
  A row of the long table (\<open>melted_data\<close>). The type of the \<open>Year\<close> column is a
  parameter: \<open>pd.melt\<close> fills it with the column headers (strings), and line 93 replaces
  it by the result of \<open>pd.to_numeric\<close>.
\<close>

record 'y row = ident +
  Year :: 'y
  Value :: "rat option"

text \<open>A row of \<open>grouped_df\<close>; its \<open>Value\<close> column holds the mean and is called \<open>MeanValue\<close> here.\<close>

record agg_row = ident +
  MeanValue :: "rat option"

text \<open>
  The wide table \<open>data\<close> after lines 78 to 87: the identity cells of every row, and the
  year columns in frame order, each with its header and its cells (already numeric or
  missing).
\<close>

record wide =
  idents :: "ident list"
  year_columns :: "(string \<times> rat option list) list"

section \<open>Reshaping and aggregation\<close>

text \<open>
  \<open>pd.melt(data, id_vars=[Country, Features, Region], var_name=Year, value_name=Value)\<close>,
  line 90: the year columns one after the other, each paired with the identity rows.
\<close>

definition melt :: "wide \<Rightarrow> string row list" where
  "melt data = concat (map (\<lambda>(var, col).
       map (\<lambda>(i, v). \<lparr>Country = Country i, Features = Features i, Region = Region i,
                       Year = var, Value = v\<rparr>) (zip (idents data) col))
     (year_columns data))"

text \<open>
  \<open>pd.to_numeric(_, errors='coerce')\<close> on a column header, a string. pandas reads
  optional white space, an optional sign, digits with an optional decimal point, an optional
  exponent (\<open>e\<close> or \<open>E\<close>, an optional sign and at least one digit) and optional white
  space, with at least one digit before the exponent; every other string is missing.
  The model reads the same strings. \<open>Year\<close> is an integer here, as in the data model of the
  dashboard, so three results of pandas are outside the model:
  \<^item> a header that reads as a number with a fractional part (\<open>2020.5\<close>) is that number in
    pandas and missing here; no range of years contains it either way;
  \<^item> the names \<open>inf\<close> and \<open>infinity\<close>, which pandas reads as infinities, are missing here
    (\<open>nan\<close> is missing in both);
  \<^item> a number too long for a 64-bit integer or a double is rounded by pandas and exact here.
\<close>

definition isspace :: "char \<Rightarrow> bool" where
  "isspace c = (let n = (of_char c :: nat) in n = 32 \<or> (9 \<le> n \<and> n \<le> 13))"

definition isdigit :: "char \<Rightarrow> bool" where
  "isdigit c = (let n = (of_char c :: nat) in 48 \<le> n \<and> n \<le> 57)"

definition digits_value :: "string \<Rightarrow> nat" where
  "digits_value ds = foldl (\<lambda>acc c. 10 * acc + ((of_char c :: nat) - 48)) 0 ds"

definition take_sign :: "string \<Rightarrow> bool \<times> string" where
  "take_sign p =
     (case p of
        [] \<Rightarrow> (False, [])
      | c # cs \<Rightarrow>
          if c = CHR ''-'' then (True, cs)
          else if c = CHR ''+'' then (False, cs)
          else (False, p))"

definition take_decimals :: "string \<Rightarrow> string \<times> string" where
  "take_decimals p =
     (case p of
        [] \<Rightarrow> ([], [])
      | c # cs \<Rightarrow>
          if c = CHR ''.'' then (takeWhile isdigit cs, dropWhile isdigit cs)
          else ([], p))"

text \<open>An exponent with no digit is not consumed, and the string then fails to end.\<close>

definition take_exponent :: "string \<Rightarrow> int \<times> string" where
  "take_exponent p =
     (case p of
        [] \<Rightarrow> (0, [])
      | c # cs \<Rightarrow>
          if c = CHR ''e'' \<or> c = CHR ''E''
          then (let (negative, q) = take_sign cs;
                    ds = takeWhile isdigit q
                in if ds = [] then (0, p)
                   else (if negative then - int (digits_value ds) else int (digits_value ds),
                         dropWhile isdigit q))
          else (0, p))"

definition to_numeric :: "string \<Rightarrow> int option" where
  "to_numeric s =
     (let (negative, p1) = take_sign (dropWhile isspace s);
          whole = takeWhile isdigit p1;
          (decimals, p2) = take_decimals (dropWhile isdigit p1);
          (exponent, p3) = take_exponent p2
      in if whole = [] \<and> decimals = [] then None
         else if dropWhile isspace p3 \<noteq> [] then None
         else
           (let digits = int (digits_value (whole @ decimals));
                number = (if negative then - digits else digits);
                e = exponent - int (length decimals)
            in if 0 \<le> e then Some (number * 10 ^ nat e)
               else if number mod 10 ^ nat (- e) = 0 then Some (number div 10 ^ nat (- e))
               else None))"

text \<open>Line 93: the \<open>Year\<close> column is replaced by its coercion; no row is removed.\<close>

definition coerce_year :: "string row list \<Rightarrow> int option row list" where
  "coerce_year rows = map (\<lambda>r. \<lparr>Country = Country r, Features = Features r, Region = Region r,
                                Year = to_numeric (Year r), Value = Value r\<rparr>) rows"

text \<open>\<open>Series.isin\<close>: membership, where a missing value matches a missing value.\<close>

definition isin :: "'a \<Rightarrow> 'a list \<Rightarrow> bool" where
  "isin x xs = (x \<in> set xs)"

text \<open>\<open>Series.unique\<close>: the distinct values in order of first appearance.\<close>

definition unique :: "'a list \<Rightarrow> 'a list" where
  "unique xs = rev (remdups (rev xs))"

text \<open>
  The mean of a group's \<open>Value\<close> column: missing values are skipped, and the mean of no
  value at all is missing.
\<close>

definition mean :: "rat option list \<Rightarrow> rat option" where
  "mean vs = (let xs = map the (filter (\<lambda>v. v \<noteq> None) vs)
              in if xs = [] then None else Some (sum_list xs / of_nat (length xs)))"

definition group_key :: "'a ident_scheme \<Rightarrow> string \<times> string \<times> string" where
  "group_key r = (Country r, Region r, Features r)"

text \<open>
  \<open>groupby([Country, Region, Features])[Value].mean().reset_index()\<close>: one row per key
  that occurs, the keys in sorted order.
\<close>

definition groupby_mean :: "'y row list \<Rightarrow> agg_row list" where
  "groupby_mean rows =
     map (\<lambda>k. \<lparr>Country = fst k, Features = snd (snd k), Region = fst (snd k),
               MeanValue = mean (map Value (filter (\<lambda>r. group_key r = k) rows))\<rparr>)
         (sort (remdups (map group_key rows)))"

text \<open>The expression of lines 96 to 97 and of lines 237 to 238.\<close>

definition aggregate :: "int option row list \<Rightarrow> int option list \<Rightarrow> agg_row list" where
  "aggregate melted years = groupby_mean (filter (\<lambda>r. isin (Year r) years) melted)"

text \<open>\<open>dropna(subset=[Value])\<close>.\<close>

definition dropna :: "'y row list \<Rightarrow> 'y row list" where
  "dropna rows = filter (\<lambda>r. Value r \<noteq> None) rows"

section \<open>Strings\<close>

text \<open>
  Python's \<open>str.title\<close>: a letter that follows a letter is lowered, any other letter is
  raised. A string is a list of bytes here, UTF-8 for what is not ASCII. On ASCII letters
  the model is Python's. A byte outside ASCII is copied and counts as a letter, so the model
  is Python's where each character outside ASCII is a letter that already has the case
  \<open>title\<close> gives it (upper case at the start of a word, lower case inside one, as in
  country names); it does not change the case of such a letter, and it takes a sign
  outside ASCII for a letter.
\<close>

definition isascii :: "char \<Rightarrow> bool" where
  "isascii c = ((of_char c :: nat) < 128)"

definition islower :: "char \<Rightarrow> bool" where
  "islower c = (let n = (of_char c :: nat) in 97 \<le> n \<and> n \<le> 122)"

definition isupper :: "char \<Rightarrow> bool" where
  "isupper c = (let n = (of_char c :: nat) in 65 \<le> n \<and> n \<le> 90)"

definition toupper :: "char \<Rightarrow> char" where
  "toupper c = (if islower c then char_of ((of_char c :: nat) - 32) else c)"

definition tolower :: "char \<Rightarrow> char" where
  "tolower c = (if isupper c then char_of ((of_char c :: nat) + 32) else c)"

fun title_from :: "bool \<Rightarrow> string \<Rightarrow> string" where
  "title_from previous_is_cased [] = []"
| "title_from previous_is_cased (c # cs) =
     (if islower c then (if previous_is_cased then c else toupper c) # title_from True cs
      else if isupper c then (if previous_is_cased then tolower c else c) # title_from True cs
      else c # title_from (\<not> isascii c) cs)"

definition title :: "string \<Rightarrow> string" where
  "title s = title_from False s"

text \<open>The decimal text of an integer, as an f-string prints it.\<close>

fun str_nat :: "nat \<Rightarrow> string" where
  "str_nat n = (if n < 10 then [char_of (48 + n)]
                else str_nat (n div 10) @ [char_of (48 + n mod 10)])"

definition str_int :: "int \<Rightarrow> string" where
  "str_int i = (if i < 0 then CHR ''-'' # str_nat (nat (- i)) else str_nat (nat i))"

text \<open>The arrow U+2193 of the status text, as its three UTF-8 bytes.\<close>

definition down_arrow :: string where
  "down_arrow = [char_of (226 :: nat), char_of (134 :: nat), char_of (147 :: nat)]"

section \<open>Module state and view selectors\<close>

text \<open>The module-level variables that the callbacks read and assign.\<close>

record globals =
  melted_data :: "int option row list"
  grouped_df :: "agg_row list"
  treemap_value :: string
  years_to_average :: "int option list"

text \<open>
  A figure is modelled by the data frame handed to the plotting call; titles, colours and
  hover templates are rendering.
\<close>

definition create_treemap :: "agg_row list \<Rightarrow> string \<Rightarrow> agg_row list" where
  "create_treemap df treemap_val = filter (\<lambda>r. Features r = treemap_val) df"

text \<open>
  The three country charts. Each mask takes \<open>Country\<close> and \<open>Features\<close> from the frame
  passed in and \<open>Year\<close> from the global \<open>melted_data\<close>, row by row; the only caller
  passes \<open>melted_data\<close> itself.
\<close>

definition create_barchart :: "globals \<Rightarrow> int option row list \<Rightarrow> string \<Rightarrow> int option row list" where
  "create_barchart g melted country =
     dropna (map fst (filter (\<lambda>(r, m). Country r = country
                                  \<and> isin (Features r) [''imports'', ''exports'']
                                  \<and> isin (Year m) (years_to_average g))
                        (zip melted (melted_data g))))"

definition create_dotplot :: "globals \<Rightarrow> int option row list \<Rightarrow> string \<Rightarrow> int option row list" where
  "create_dotplot g df country =
     dropna (map fst (filter (\<lambda>(r, m). Country r = country
                                  \<and> isin (Features r) [''net generation'', ''net consumption'']
                                  \<and> isin (Year m) (years_to_average g))
                        (zip df (melted_data g))))"

definition create_piechart :: "globals \<Rightarrow> int option row list \<Rightarrow> string \<Rightarrow> int option row list" where
  "create_piechart g df country =
     dropna (map fst (filter (\<lambda>(r, m). Country r = country
                                  \<and> isin (Features r)
                                        [''imports'', ''net generation'', ''distribution losses'']
                                  \<and> isin (Year m) (years_to_average g))
                        (zip df (melted_data g))))"

text \<open>Lines 75 to 97: the state after the module is loaded.\<close>

definition startup :: "wide \<Rightarrow> globals" where
  "startup data =
     (let melted = coerce_year (melt data);
          years = unique (map Year melted)
      in \<lparr>melted_data = melted,
          grouped_df = aggregate melted years,
          treemap_value = ''net consumption'',
          years_to_average = years\<rparr>)"

section \<open>Callbacks\<close>

text \<open>A \<open>style\<close> property is a dictionary of CSS settings.\<close>

type_synonym style = "(string \<times> string) list"

type_synonym treemap_outputs = "agg_row list \<times> string \<times> style \<times> style \<times> style \<times> string"

text \<open>
  \<open>searched in melted_data[Country].unique()\<close>; an unset dropdown gives \<open>None\<close>, which
  is in no vocabulary.
\<close>

definition in_countries :: "string option \<Rightarrow> globals \<Rightarrow> bool" where
  "in_countries searched g =
     (case searched of
        None \<Rightarrow> False
      | Some s \<Rightarrow> s \<in> set (unique (map Country (melted_data g))))"

text \<open>
  The conditional that closes each of the three branches of \<open>update_treemap\<close>
  (lines 225 to 228, 231 to 234 and 239 to 242).
\<close>

definition searched_tree :: "globals \<Rightarrow> string option \<Rightarrow> agg_row list" where
  "searched_tree g searched =
     (if in_countries searched g
      then create_treemap (filter (\<lambda>r. Country r = title (the searched)) (grouped_df g))
             (treemap_value g)
      else create_treemap (grouped_df g) (treemap_value g))"

definition update_treemap ::
  "globals \<Rightarrow> string option \<Rightarrow> string option \<Rightarrow> string \<Rightarrow> int \<times> int
     \<Rightarrow> globals \<times> treemap_outputs" where
  "update_treemap g triggered_id searched selected_value selected_range =
     (let g' =
        (if triggered_id = Some ''treemap-search'' then g
         else if triggered_id = Some ''treemap-choice''
         then g\<lparr>treemap_value := selected_value\<rparr>
         else
           (let years = map Some [fst selected_range .. snd selected_range]
            in g\<lparr>years_to_average := years,
                 grouped_df := aggregate (melted_data g) years\<rparr>));
          tree = searched_tree g' searched;
          hide = [(''display'', ''none'')]
      in (g', tree,
          ''Selected Year Range: '' @ str_int (fst selected_range) @ '' - ''
            @ str_int (snd selected_range),
          hide, hide, hide, []))"

text \<open>
  The click payload: a dictionary whose \<open>points\<close> entry is a list of points, each a
  dictionary with a \<open>label\<close> entry. A missing key and an empty list raise, and the bare
  \<open>except\<close> of the handler catches both.
\<close>

datatype py_error = KeyError | IndexError

type_synonym point = "(string \<times> string) list"

type_synonym click_data = "(string \<times> point list) list"

definition clicked_label :: "click_data \<Rightarrow> py_error + string" where
  "clicked_label selected_data =
     (case map_of selected_data ''points'' of
        None \<Rightarrow> Inl KeyError
      | Some ps \<Rightarrow>
          (case ps of
             [] \<Rightarrow> Inl IndexError
           | p # _ \<Rightarrow>
               (case map_of p ''label'' of
                  None \<Rightarrow> Inl KeyError
                | Some l \<Rightarrow> Inr l)))"

type_synonym country_outputs =
  "string \<times> style \<times> int option row list \<times> style \<times> int option row list
     \<times> style \<times> int option row list"

definition update_country_graphs :: "globals \<Rightarrow> click_data option \<Rightarrow> country_outputs" where
  "update_country_graphs g selected_data =
     (let (text, country, hide) =
        (case selected_data of
           None \<Rightarrow> ([], [], [(''display'', ''none'')])
         | Some sd \<Rightarrow>
             (case clicked_label sd of
                Inl e \<Rightarrow> ([], [], [(''display'', ''none'')])
              | Inr c \<Rightarrow>
                  if c \<in> set (unique (map Country (melted_data g)))
                  then (down_arrow @ '' Statistics for selected country: '' @ c @ '' ''
                          @ down_arrow,
                        c, [(''display'', ''block'')])
                  else (''Selected Region: '' @ c, c, [(''display'', ''none'')])));
          bar = create_barchart g (melted_data g) country;
          dot = create_dotplot g (melted_data g) country;
          pie = create_piechart g (melted_data g) country
      in (text, hide, bar, hide, dot, hide, pie))"

section \<open>The page and its events\<close>

text \<open>
  The component properties that the two callbacks read and write, named by component id and
  property.
\<close>

record page =
  treemap_choice_value :: string
  treemap_search_value :: "string option"
  main_treemap_figure :: "agg_row list"
  main_treemap_clickData :: "click_data option"
  year_text_children :: string
  year_slider_value :: "int \<times> int"
  test_text_children :: string
  country_dotplot_style :: style
  country_dotplot_figure :: "int option row list"
  country_barchart_style :: style
  country_barchart_figure :: "int option row list"
  country_piechart_style :: style
  country_piechart_figure :: "int option row list"

text \<open>Lines 122 to 204: the page as laid out, with empty figures and no style set.\<close>

definition layout :: page where
  "layout = \<lparr>treemap_choice_value = ''net consumption'',
             treemap_search_value = None,
             main_treemap_figure = [],
             main_treemap_clickData = None,
             year_text_children = [],
             year_slider_value = (1980, 2021),
             test_text_children = [],
             country_dotplot_style = [],
             country_dotplot_figure = [],
             country_barchart_style = [],
             country_barchart_figure = [],
             country_piechart_style = [],
             country_piechart_figure = []\<rparr>"

text \<open>
  The decorators of lines 209 to 219 and 249 to 259: the inputs are read from the page, and
  every declared output is written back.
\<close>

definition fire_update_treemap :: "string option \<Rightarrow> globals \<times> page \<Rightarrow> globals \<times> page" where
  "fire_update_treemap triggered_id s =
     (let (g, p) = s;
          (g', tree, year_text, bar_style, dot_style, pie_style, text) =
             update_treemap g triggered_id (treemap_search_value p) (treemap_choice_value p)
               (year_slider_value p)
      in (g', p\<lparr>main_treemap_figure := tree,
                year_text_children := year_text,
                country_barchart_style := bar_style,
                country_dotplot_style := dot_style,
                country_piechart_style := pie_style,
                test_text_children := text\<rparr>))"

definition fire_update_country_graphs :: "globals \<times> page \<Rightarrow> globals \<times> page" where
  "fire_update_country_graphs s =
     (let (g, p) = s;
          (text, bar_style, bar, dot_style, dot, pie_style, pie) =
             update_country_graphs g (main_treemap_clickData p)
      in (g, p\<lparr>test_text_children := text,
               country_barchart_style := bar_style,
               country_barchart_figure := bar,
               country_dotplot_style := dot_style,
               country_dotplot_figure := dot,
               country_piechart_style := pie_style,
               country_piechart_figure := pie\<rparr>))"

text \<open>The first callback runs once when the page loads, with no trigger.\<close>

definition page_load :: "globals \<Rightarrow> globals \<times> page" where
  "page_load g = fire_update_treemap None (g, layout)"

definition feature_choice_change :: "string \<Rightarrow> globals \<times> page \<Rightarrow> globals \<times> page" where
  "feature_choice_change v s =
     fire_update_treemap (Some ''treemap-choice'') (fst s, (snd s)\<lparr>treemap_choice_value := v\<rparr>)"

definition search_entry :: "string option \<Rightarrow> globals \<times> page \<Rightarrow> globals \<times> page" where
  "search_entry v s =
     fire_update_treemap (Some ''treemap-search'') (fst s, (snd s)\<lparr>treemap_search_value := v\<rparr>)"

definition year_range_change :: "int \<times> int \<Rightarrow> globals \<times> page \<Rightarrow> globals \<times> page" where
  "year_range_change v s =
     fire_update_treemap (Some ''year-slider'') (fst s, (snd s)\<lparr>year_slider_value := v\<rparr>)"

definition treemap_click :: "click_data \<Rightarrow> globals \<times> page \<Rightarrow> globals \<times> page" where
  "treemap_click v s =
     fire_update_country_graphs (fst s, (snd s)\<lparr>main_treemap_clickData := Some v\<rparr>)"

section \<open>Example tables\<close>

text \<open>Small wide tables on which the theorems below are exercised.\<close>

definition example_wide :: wide where
  "example_wide =
     \<lparr>idents =
        [\<lparr>Country = ''France'', Features = ''imports'', Region = ''Europe''\<rparr>,
         \<lparr>Country = ''France'', Features = ''net generation'', Region = ''Europe''\<rparr>,
         \<lparr>Country = ''Trinidad and Tobago'', Features = ''net consumption'',
            Region = ''Central & South America''\<rparr>,
         \<lparr>Country = ''France'', Features = ''exports'', Region = ''Europe''\<rparr>],
      year_columns =
        [(''2020'', [Some 10, Some 500, Some 8, Some 12]),
         (''2021'', [Some 20, None, Some 9, Some 14])]\<rparr>"

definition text_header_wide :: wide where
  "text_header_wide =
     \<lparr>idents = [\<lparr>Country = ''France'', Features = ''imports'', Region = ''Europe''\<rparr>],
      year_columns = [(''2020'', [Some 1]), (''abc'', [Some 2])]\<rparr>"

definition missing_value_wide :: wide where
  "missing_value_wide =
     \<lparr>idents = [\<lparr>Country = ''France'', Features = ''imports'', Region = ''Europe''\<rparr>],
      year_columns = [(''2020'', [None]), (''2021'', [Some 5])]\<rparr>"

definition three_year_wide :: wide where
  "three_year_wide =
     \<lparr>idents =
        [\<lparr>Country = ''Germany'', Features = ''imports'', Region = ''Europe''\<rparr>,
         \<lparr>Country = ''France'', Features = ''imports'', Region = ''Europe''\<rparr>,
         \<lparr>Country = ''France'', Features = ''exports'', Region = ''Europe''\<rparr>],
      year_columns =
        [(''2019'', [Some 7, Some 100, Some 1]),
         (''2020'', [Some 8, Some 10, None]),
         (''2021'', [Some 9, Some 20, Some 3])]\<rparr>"

definition blank_and_france_wide :: wide where
  "blank_and_france_wide =
     \<lparr>idents =
        [\<lparr>Country = [], Features = ''net consumption'', Region = ''Europe''\<rparr>,
         \<lparr>Country = ''France'', Features = ''net consumption'', Region = ''Europe''\<rparr>],
      year_columns = [(''2020'', [Some 1, Some 2])]\<rparr>"

definition blank_country_wide :: wide where
  "blank_country_wide =
     \<lparr>idents =
        [\<lparr>Country = [], Features = ''imports'', Region = ''Europe''\<rparr>,
         \<lparr>Country = [], Features = ''net generation'', Region = ''Europe''\<rparr>],
      year_columns = [(''2020'', [Some 1, Some 2])]\<rparr>"

definition france_click :: click_data where
  "france_click = [(''points'', [[(''label'', ''France''), (''parent'', ''Europe'')]])]"

definition europe_click :: click_data where
  "europe_click = [(''points'', [[(''label'', ''Europe''), (''parent'', [])]])]"

definition unlabelled_click :: click_data where
  "unlabelled_click = [(''points'', [[(''parent'', ''Europe'')]])]"

section \<open>Basic facts\<close>

lemma set_unique: "set (unique xs) = set xs"
  by (simp add: unique_def)

lemmas to_numeric_defs =
  to_numeric_def take_sign_def take_decimals_def take_exponent_def digits_value_def
  isspace_def isdigit_def

lemma to_numeric_examples:
  "to_numeric ''2020'' = Some 2020" "to_numeric ''2021'' = Some 2021" "to_numeric ''abc'' = None"
  by (simp_all add: to_numeric_defs)

lemma to_numeric_spellings:
  "to_numeric ''+2020'' = Some 2020" "to_numeric '' 2020 '' = Some 2020"
  "to_numeric ''2020.0'' = Some 2020" "to_numeric ''1e3'' = Some 1000"
  "to_numeric ''-5'' = Some (- 5)" "to_numeric ''2020.5'' = None"
  "to_numeric ''1e'' = None" "to_numeric ''.'' = None" "to_numeric [] = None"
  "to_numeric ''20 20'' = None"
  by (simp_all add: to_numeric_defs)

lemma isin_range: "isin y (map Some [a..b]) \<longleftrightarrow> (\<exists>n. y = Some n \<and> a \<le> n \<and> n \<le> b)"
  by (auto simp: isin_def)

lemma mean_None_iff: "mean vs = None \<longleftrightarrow> (\<forall>v \<in> set vs. v = None)"
  by (auto simp: mean_def Let_def filter_empty_conv)

lemma group_key_agg [simp]:
  "group_key \<lparr>Country = c, Features = f, Region = r, MeanValue = m\<rparr> = (c, r, f)"
  by (simp add: group_key_def)

lemma group_key_row:
  "group_key \<lparr>Country = Country i, Features = Features i, Region = Region i,
               Year = y, Value = v\<rparr> = group_key i"
  by (simp add: group_key_def)

subsection \<open>The example tables, evaluated\<close>

lemma melted_example_wide:
  "melted_data (startup example_wide)
     = [\<lparr>Country = ''France'', Features = ''imports'', Region = ''Europe'',
          Year = Some 2020, Value = Some 10\<rparr>,
        \<lparr>Country = ''France'', Features = ''net generation'', Region = ''Europe'',
          Year = Some 2020, Value = Some 500\<rparr>,
        \<lparr>Country = ''Trinidad and Tobago'', Features = ''net consumption'',
          Region = ''Central & South America'', Year = Some 2020, Value = Some 8\<rparr>,
        \<lparr>Country = ''France'', Features = ''exports'', Region = ''Europe'',
          Year = Some 2020, Value = Some 12\<rparr>,
        \<lparr>Country = ''France'', Features = ''imports'', Region = ''Europe'',
          Year = Some 2021, Value = Some 20\<rparr>,
        \<lparr>Country = ''France'', Features = ''net generation'', Region = ''Europe'',
          Year = Some 2021, Value = None\<rparr>,
        \<lparr>Country = ''Trinidad and Tobago'', Features = ''net consumption'',
          Region = ''Central & South America'', Year = Some 2021, Value = Some 9\<rparr>,
        \<lparr>Country = ''France'', Features = ''exports'', Region = ''Europe'',
          Year = Some 2021, Value = Some 14\<rparr>]"
  by (simp add: startup_def example_wide_def melt_def coerce_year_def to_numeric_examples Let_def)

lemma grouped_example_wide:
  "grouped_df (startup example_wide)
     = [\<lparr>Country = ''France'', Features = ''exports'', Region = ''Europe'',
          MeanValue = Some 13\<rparr>,
        \<lparr>Country = ''France'', Features = ''imports'', Region = ''Europe'',
          MeanValue = Some 15\<rparr>,
        \<lparr>Country = ''France'', Features = ''net generation'', Region = ''Europe'',
          MeanValue = Some 500\<rparr>,
        \<lparr>Country = ''Trinidad and Tobago'', Features = ''net consumption'',
          Region = ''Central & South America'', MeanValue = Some (17 / 2)\<rparr>]"
  by code_simp

lemma treemap_value_startup: "treemap_value (startup data) = ''net consumption''"
  by (simp add: startup_def Let_def)

lemma years_startup: "years_to_average (startup data) = unique (map Year (melted_data (startup data)))"
  by (simp add: startup_def Let_def)

lemma melted_missing_value_wide:
  "melted_data (startup missing_value_wide)
     = [\<lparr>Country = ''France'', Features = ''imports'', Region = ''Europe'',
          Year = Some 2020, Value = None\<rparr>,
        \<lparr>Country = ''France'', Features = ''imports'', Region = ''Europe'',
          Year = Some 2021, Value = Some 5\<rparr>]"
  by (simp add: startup_def missing_value_wide_def melt_def coerce_year_def to_numeric_examples
      Let_def)

lemma melted_text_header_wide:
  "melted_data (startup text_header_wide)
     = [\<lparr>Country = ''France'', Features = ''imports'', Region = ''Europe'',
          Year = Some 2020, Value = Some 1\<rparr>,
        \<lparr>Country = ''France'', Features = ''imports'', Region = ''Europe'',
          Year = None, Value = Some 2\<rparr>]"
  by (simp add: startup_def text_header_wide_def melt_def coerce_year_def to_numeric_examples
      Let_def)

lemma melted_blank_country_wide:
  "melted_data (startup blank_country_wide)
     = [\<lparr>Country = [], Features = ''imports'', Region = ''Europe'',
          Year = Some 2020, Value = Some 1\<rparr>,
        \<lparr>Country = [], Features = ''net generation'', Region = ''Europe'',
          Year = Some 2020, Value = Some 2\<rparr>]"
  by (simp add: startup_def blank_country_wide_def melt_def coerce_year_def to_numeric_examples
      Let_def)

lemma melted_blank_and_france_wide:
  "melted_data (startup blank_and_france_wide)
     = [\<lparr>Country = [], Features = ''net consumption'', Region = ''Europe'',
          Year = Some 2020, Value = Some 1\<rparr>,
        \<lparr>Country = ''France'', Features = ''net consumption'', Region = ''Europe'',
          Year = Some 2020, Value = Some 2\<rparr>]"
  by (simp add: startup_def blank_and_france_wide_def melt_def coerce_year_def
      to_numeric_examples Let_def)

lemma grouped_blank_and_france_wide:
  "grouped_df (startup blank_and_france_wide)
     = [\<lparr>Country = [], Features = ''net consumption'', Region = ''Europe'',
          MeanValue = Some 1\<rparr>,
        \<lparr>Country = ''France'', Features = ''net consumption'', Region = ''Europe'',
          MeanValue = Some 2\<rparr>]"
  by code_simp

lemma grouped_three_year_wide:
  "grouped_df (startup three_year_wide)
     = [\<lparr>Country = ''France'', Features = ''exports'', Region = ''Europe'',
          MeanValue = Some 2\<rparr>,
        \<lparr>Country = ''France'', Features = ''imports'', Region = ''Europe'',
          MeanValue = Some (130 / 3)\<rparr>,
        \<lparr>Country = ''Germany'', Features = ''imports'', Region = ''Europe'',
          MeanValue = Some 8\<rparr>]"
  by code_simp

lemma title_empty: "title [] = []"
  by (simp add: title_def)

lemma clicked_label_examples:
  "clicked_label france_click = Inr ''France''"
  "clicked_label europe_click = Inr ''Europe''"
  "clicked_label unlabelled_click = Inl KeyError"
  by (simp_all add: clicked_label_def france_click_def europe_click_def unlabelled_click_def)

lemma title_trinidad: "title ''Trinidad and Tobago'' = ''Trinidad And Tobago''"
  by code_simp

subsection \<open>The grouped mean\<close>

lemma set_groupby_mean:
  "set (groupby_mean rows) =
     (\<lambda>k. \<lparr>Country = fst k, Features = snd (snd k), Region = fst (snd k),
            MeanValue = mean (map Value (filter (\<lambda>r. group_key r = k) rows))\<rparr>)
       ` group_key ` set rows"
  by (simp add: groupby_mean_def)

lemma groupby_mean_key_iff:
  "(\<exists>x \<in> set (groupby_mean rows). group_key x = k) \<longleftrightarrow> (\<exists>r \<in> set rows. group_key r = k)"
  by (auto simp: set_groupby_mean)

lemma groupby_mean_memI:
  assumes "k \<in> group_key ` set rows"
    and "mean (map Value (filter (\<lambda>r. group_key r = k) rows)) = m"
  shows "\<lparr>Country = fst k, Features = snd (snd k), Region = fst (snd k), MeanValue = m\<rparr>
           \<in> set (groupby_mean rows)"
  using assms unfolding set_groupby_mean by blast

lemma groupby_mean_value:
  "x \<in> set (groupby_mean rows) \<Longrightarrow>
     MeanValue x = mean (map Value (filter (\<lambda>r. group_key r = group_key x) rows))"
  by (auto simp: set_groupby_mean)

lemma groupby_mean_distinct_keys: "distinct (map group_key (groupby_mean rows))"
  by (simp add: groupby_mean_def comp_def)

lemma groupby_mean_sorted_keys: "sorted (map group_key (groupby_mean rows))"
  by (simp add: groupby_mean_def comp_def)

lemma grouped_df_year_change:
  assumes "triggered_id \<noteq> Some ''treemap-search''" and "triggered_id \<noteq> Some ''treemap-choice''"
  shows "grouped_df (fst (update_treemap g triggered_id searched selected_value (a, b)))
           = aggregate (melted_data g) (map Some [a..b])"
  using assms by (simp add: update_treemap_def Let_def)

lemma filter_key_others:
  assumes "\<forall>i \<in> set others. group_key i \<noteq> k"
  shows "filter (\<lambda>r. group_key r = k)
           (map (\<lambda>(i, v). \<lparr>Country = Country i, Features = Features i, Region = Region i,
                           Year = y, Value = v\<rparr>) (zip others col)) = []"
proof -
  have "\<forall>x \<in> set (zip others col). group_key (fst x) \<noteq> k"
    using assms by (auto dest: set_zip_leftD)
  then show ?thesis
    by (simp add: filter_empty_conv group_key_row case_prod_unfold)
qed

subsection \<open>The melted table\<close>

text \<open>The mean of a column, written out.\<close>

lemma mean_written_out:
  "mean (map Value rows) =
     (let vs = map (the \<circ> Value) (filter (\<lambda>r. Value r \<noteq> None) rows)
      in if vs = [] then None else Some (sum_list vs / of_nat (length vs)))"
  by (simp add: mean_def Let_def filter_map comp_def)

text \<open>One column of the wide table gives one row of the long table to each identity row.\<close>

lemma melt_column_key:
  assumes len: "length col = length (before @ f # after)"
    and others: "\<forall>i \<in> set before \<union> set after. group_key i \<noteq> group_key f"
  shows "filter (\<lambda>r. group_key r = group_key f)
           (map (\<lambda>(i, v). \<lparr>Country = Country i, Features = Features i, Region = Region i,
                           Year = y, Value = v\<rparr>) (zip (before @ f # after) col))
         = [\<lparr>Country = Country f, Features = Features f, Region = Region f,
              Year = y, Value = col ! length before\<rparr>]"
proof -
  let ?n = "length before"
  have n: "?n < length col" using len by simp
  have col: "col = take ?n col @ col ! ?n # drop (Suc ?n) col"
    using n by (rule id_take_nth_drop)
  have l1: "length before = length (take ?n col)" using n by simp
  have z: "zip (before @ f # after) col
             = zip before (take ?n col) @ (f, col ! ?n) # zip after (drop (Suc ?n) col)"
    by (subst col) (simp add: zip_append [OF l1])
  have b: "\<forall>i \<in> set before. group_key i \<noteq> group_key f" using others by simp
  have a: "\<forall>i \<in> set after. group_key i \<noteq> group_key f" using others by simp
  show ?thesis
    unfolding z
    by (simp add: filter_key_others [OF b] filter_key_others [OF a] group_key_row)
qed

lemma melt_key_rows:
  assumes rect: "\<forall>c \<in> set cols. length (snd c) = length (before @ f # after)"
    and others: "\<forall>i \<in> set before \<union> set after. group_key i \<noteq> group_key f"
  shows "filter (\<lambda>r. group_key r = group_key f)
           (concat (map (\<lambda>(var, col).
              map (\<lambda>(i, v). \<lparr>Country = Country i, Features = Features i, Region = Region i,
                              Year = var, Value = v\<rparr>) (zip (before @ f # after) col)) cols))
         = map (\<lambda>c. \<lparr>Country = Country f, Features = Features f, Region = Region f,
                     Year = fst c, Value = snd c ! length before\<rparr>) cols"
  using rect
proof (induction cols)
  case Nil
  then show ?case by simp
next
  case (Cons c cols)
  obtain var col where c: "c = (var, col)" by (cases c)
  have "length col = length (before @ f # after)" using Cons.prems c by simp
  from melt_column_key [OF this others] Cons show ?case
    by (simp add: c)
qed

lemma group_key_coerce:
  "group_key \<lparr>Country = Country r, Features = Features r, Region = Region r,
               Year = y, Value = v\<rparr> = group_key r"
  by (simp add: group_key_def)

lemma filter_key_coerce_year:
  "filter (\<lambda>r. group_key r = k) (coerce_year rows)
     = coerce_year (filter (\<lambda>r. group_key r = k) rows)"
  by (simp add: coerce_year_def filter_map comp_def group_key_coerce)

lemma melted_key_rows:
  assumes ids: "idents data = before @ f # after"
    and rect: "\<forall>c \<in> set (year_columns data). length (snd c) = length (idents data)"
    and others: "\<forall>i \<in> set before \<union> set after. group_key i \<noteq> group_key f"
  shows "filter (\<lambda>r. group_key r = group_key f) (melted_data (startup data))
         = map (\<lambda>c. \<lparr>Country = Country f, Features = Features f, Region = Region f,
                     Year = to_numeric (fst c), Value = snd c ! length before\<rparr>)
               (year_columns data)"
proof -
  have rect': "\<forall>c \<in> set (year_columns data). length (snd c) = length (before @ f # after)"
    using rect ids by simp
  have md: "melted_data (startup data) = coerce_year (melt data)"
    by (simp add: startup_def Let_def)
  have "filter (\<lambda>r. group_key r = group_key f) (melt data)
          = map (\<lambda>c. \<lparr>Country = Country f, Features = Features f, Region = Region f,
                      Year = fst c, Value = snd c ! length before\<rparr>) (year_columns data)"
    unfolding melt_def ids by (rule melt_key_rows [OF rect' others])
  then show ?thesis
    unfolding md filter_key_coerce_year by (simp add: coerce_year_def comp_def)
qed

lemma length_melt:
  assumes "\<forall>c \<in> set cols. length (snd c) = n" and "length ids = n"
  shows "length (concat (map (\<lambda>(var, col). map (f var) (zip ids col)) cols)) = n * length cols"
  using assms by (induction cols) (auto simp: case_prod_unfold)

lemma years_melt:
  assumes "\<forall>c \<in> set cols. length (snd c) = length ids"
  shows "map Year (coerce_year (concat (map (\<lambda>(var, col).
           map (\<lambda>(i, v). \<lparr>Country = Country i, Features = Features i, Region = Region i,
                           Year = var, Value = v\<rparr>) (zip ids col)) cols)))
         = concat (map (\<lambda>c. replicate (length ids) (to_numeric (fst c))) cols)"
  using assms
proof (induction cols)
  case Nil
  then show ?case by (simp add: coerce_year_def)
next
  case (Cons c cols)
  have "map (\<lambda>x. to_numeric (fst c)) (zip ids (snd c))
          = replicate (length ids) (to_numeric (fst c))"
    using Cons.prems by (simp add: map_replicate_const)
  with Cons show ?case
    by (simp add: coerce_year_def case_prod_unfold comp_def)
qed

subsection \<open>Selectors and handlers\<close>

lemma filter_zip_no_country:
  assumes "\<forall>r \<in> set melted. Country r \<noteq> country"
  shows "filter (\<lambda>(r, m). Country r = country \<and> P r m) (zip melted other) = []"
proof -
  have "\<forall>x \<in> set (zip melted other). \<not> (case x of (r, m) \<Rightarrow> Country r = country \<and> P r m)"
    using assms by (auto dest: set_zip_leftD)
  then show ?thesis by (simp add: filter_empty_conv)
qed

lemma clicked_label_raises_iff:
  "isl (clicked_label sd) \<longleftrightarrow>
     map_of sd ''points'' = None
     \<or> map_of sd ''points'' = Some []
     \<or> (\<exists>p ps. map_of sd ''points'' = Some (p # ps) \<and> map_of p ''label'' = None)"
  by (auto simp: clicked_label_def split: option.splits list.splits)

lemma melted_data_update_treemap:
  "melted_data (fst (update_treemap g t s v r)) = melted_data g"
  by (simp add: update_treemap_def Let_def)

lemma melted_data_page_load: "melted_data (fst (page_load g)) = melted_data g"
  by (simp add: page_load_def fire_update_treemap_def update_treemap_def Let_def)

lemma treemap_click_shows_charts:
  assumes "clicked_label cd = Inr name"
    and "name \<in> set (map Country (melted_data (fst s)))"
  shows "country_barchart_style (snd (treemap_click cd s)) = [(''display'', ''block'')]"
    and "country_dotplot_style (snd (treemap_click cd s)) = [(''display'', ''block'')]"
    and "country_piechart_style (snd (treemap_click cd s)) = [(''display'', ''block'')]"
  using assms
  by (simp_all add: treemap_click_def fire_update_country_graphs_def update_country_graphs_def
      set_unique)

text \<open>
  When \<open>title\<close> leaves the searched name as it is, the treemap shows exactly the rows of
  that country for the current feature.
\<close>

lemma title_fixed_search:
  assumes "in_countries (Some s) g" and "title s = s"
  shows "searched_tree g (Some s)
           = filter (\<lambda>r. Country r = s \<and> Features r = treemap_value g) (grouped_df g)"
  using assms by (simp add: searched_tree_def create_treemap_def conj_commute)

section \<open>The aggregate\<close>

text \<open>
  C1, as the code has it: after a year-range change to \<open>[a, b]\<close>, the aggregate has a row
  for a (Country, Region, Features) triple exactly when some row of the long table with that
  triple has its Year in \<open>[a, b]\<close>, whether its Value is missing or not. So a triple whose
  rows all lie outside the range does not appear; a triple with rows in the range appears,
  and its mean is missing exactly when all those rows have a missing Value.
\<close>

theorem aggregate_group_present_iff:
  assumes "triggered_id \<noteq> Some ''treemap-search''" and "triggered_id \<noteq> Some ''treemap-choice''"
  shows "((\<exists>x \<in> set (grouped_df (fst (update_treemap g triggered_id searched selected_value (a, b)))).
             group_key x = k)
          \<longleftrightarrow> (\<exists>r \<in> set (melted_data g). group_key r = k
                  \<and> (\<exists>y. Year r = Some y \<and> a \<le> y \<and> y \<le> b)))
       \<and> (\<forall>x \<in> set (grouped_df (fst (update_treemap g triggered_id searched selected_value (a, b)))).
             group_key x = k \<longrightarrow>
               (MeanValue x = None
                \<longleftrightarrow> (\<forall>r \<in> set (melted_data g). group_key r = k
                       \<and> (\<exists>y. Year r = Some y \<and> a \<le> y \<and> y \<le> b) \<longrightarrow> Value r = None)))"
proof -
  let ?rows = "filter (\<lambda>r. isin (Year r) (map Some [a..b])) (melted_data g)"
  have df: "grouped_df (fst (update_treemap g triggered_id searched selected_value (a, b)))
              = groupby_mean ?rows"
    using assms by (simp add: grouped_df_year_change aggregate_def)
  have present: "(\<exists>x \<in> set (groupby_mean ?rows). group_key x = k)
          \<longleftrightarrow> (\<exists>r \<in> set (melted_data g). group_key r = k
                  \<and> (\<exists>y. Year r = Some y \<and> a \<le> y \<and> y \<le> b))"
    unfolding groupby_mean_key_iff by (auto simp: isin_range)
  have missing: "MeanValue x = None
                \<longleftrightarrow> (\<forall>r \<in> set (melted_data g). group_key r = k
                       \<and> (\<exists>y. Year r = Some y \<and> a \<le> y \<and> y \<le> b) \<longrightarrow> Value r = None)"
    if "x \<in> set (groupby_mean ?rows)" and "group_key x = k" for x
    using groupby_mean_value [OF that(1)] that(2)
    by (auto simp: mean_None_iff isin_range)
  show ?thesis unfolding df using present missing by blast
qed

theorem aggregate_group_present_iff_witness:
  "Some ''year-slider'' \<noteq> Some ''treemap-search''
   \<and> Some ''year-slider'' \<noteq> Some ''treemap-choice''
   \<and> (\<exists>x \<in> set (grouped_df (fst (update_treemap (startup missing_value_wide)
                   (Some ''year-slider'') None ''net consumption'' (2020, 2020)))).
         group_key x = (''France'', ''Europe'', ''imports'') \<and> MeanValue x = None)
   \<and> \<not> (\<exists>x \<in> set (grouped_df (fst (update_treemap (startup missing_value_wide)
                   (Some ''year-slider'') None ''net consumption'' (1990, 2000)))).
         group_key x = (''France'', ''Europe'', ''imports''))"
proof -
  have t1: "Some ''year-slider'' \<noteq> Some ''treemap-search''" by simp
  have t2: "Some ''year-slider'' \<noteq> Some ''treemap-choice''" by simp
  note md = melted_missing_value_wide
  note a = aggregate_group_present_iff [OF t1 t2, of "startup missing_value_wide" None
      "''net consumption''" 2020 2020 "(''France'', ''Europe'', ''imports'')"]
  note b = aggregate_group_present_iff [OF t1 t2, of "startup missing_value_wide" None
      "''net consumption''" 1990 2000 "(''France'', ''Europe'', ''imports'')"]
  have p1: "\<exists>x \<in> set (grouped_df (fst (update_treemap (startup missing_value_wide)
                   (Some ''year-slider'') None ''net consumption'' (2020, 2020)))).
         group_key x = (''France'', ''Europe'', ''imports'') \<and> MeanValue x = None"
    using a by (simp add: md group_key_def) blast
  have p2: "\<not> (\<exists>x \<in> set (grouped_df (fst (update_treemap (startup missing_value_wide)
                   (Some ''year-slider'') None ''net consumption'' (1990, 2000)))).
         group_key x = (''France'', ''Europe'', ''imports''))"
    using b by (simp add: md group_key_def)
  from t1 t2 p1 p2 show ?thesis by blast
qed

text \<open>
  C1 as stated fails: in the table below the only row of (France, Europe, imports) with
  Year in \<open>[2020, 2020]\<close> has a missing Value, and the aggregate for that range still
  lists the triple, with a missing mean.
\<close>

theorem aggregate_keeps_group_without_values:
  "melted_data (startup missing_value_wide)
     = [\<lparr>Country = ''France'', Features = ''imports'', Region = ''Europe'',
          Year = Some 2020, Value = None\<rparr>,
        \<lparr>Country = ''France'', Features = ''imports'', Region = ''Europe'',
          Year = Some 2021, Value = Some 5\<rparr>]
   \<and> grouped_df (fst (update_treemap (startup missing_value_wide) (Some ''year-slider'') None
                        ''net consumption'' (2020, 2020)))
     = [\<lparr>Country = ''France'', Features = ''imports'', Region = ''Europe'', MeanValue = None\<rparr>]"
  by (simp add: melted_missing_value_wide update_treemap_def Let_def aggregate_def
      groupby_mean_def isin_def group_key_def mean_def)

text \<open>
  C6: after a year-range change to \<open>[a, b]\<close>, the mean of every aggregate row is the sum
  of the non-missing Values of the rows of its (Country, Region, Features) group whose Year
  is in \<open>[a, b]\<close>, divided by their number (and missing when there is none). In
  particular, in a wide table with a row for (France, Europe, imports) that holds 10 under
  the header 2020 and 20 under the header 2021, whatever the other rows and the other year
  columns are, a change to \<open>[2020, 2021]\<close> gives the aggregate row
  (France, Europe, imports) with mean 15.
\<close>

theorem aggregate_mean_of_selected_years:
  assumes "triggered_id \<noteq> Some ''treemap-search''" and "triggered_id \<noteq> Some ''treemap-choice''"
  shows "(\<forall>x \<in> set (grouped_df (fst (update_treemap g triggered_id searched selected_value (a, b)))).
            MeanValue x =
              (let vs = map (the \<circ> Value)
                          (filter (\<lambda>r. Value r \<noteq> None)
                             (filter (\<lambda>r. group_key r = group_key x)
                                (filter (\<lambda>r. \<exists>y. Year r = Some y \<and> a \<le> y \<and> y \<le> b)
                                   (melted_data g))))
               in if vs = [] then None else Some (sum_list vs / of_nat (length vs))))
       \<and> (idents data
             = before @ \<lparr>Country = ''France'', Features = ''imports'', Region = ''Europe''\<rparr> # after
          \<and> (\<forall>i \<in> set before \<union> set after. group_key i \<noteq> (''France'', ''Europe'', ''imports''))
          \<and> year_columns data = cs1 @ (''2020'', c2020) # cs2 @ (''2021'', c2021) # cs3
          \<and> (\<forall>c \<in> set (cs1 @ cs2 @ cs3).
                to_numeric (fst c) \<noteq> Some 2020 \<and> to_numeric (fst c) \<noteq> Some 2021)
          \<and> (\<forall>c \<in> set (year_columns data). length (snd c) = length (idents data))
          \<and> c2020 ! length before = Some 10
          \<and> c2021 ! length before = Some 20
          \<longrightarrow> \<lparr>Country = ''France'', Features = ''imports'', Region = ''Europe'',
                MeanValue = Some 15\<rparr>
                 \<in> set (grouped_df (fst (update_treemap (startup data) triggered_id searched
                                           selected_value (2020, 2021)))))"
proof (intro conjI ballI impI)
  fix x
  assume x: "x \<in> set (grouped_df (fst (update_treemap g triggered_id searched selected_value (a, b))))"
  have sel: "filter (\<lambda>r. isin (Year r) (map Some [a..b])) (melted_data g)
               = filter (\<lambda>r. \<exists>y. Year r = Some y \<and> a \<le> y \<and> y \<le> b) (melted_data g)"
    by (simp add: isin_range)
  from x have "x \<in> set (groupby_mean
        (filter (\<lambda>r. \<exists>y. Year r = Some y \<and> a \<le> y \<and> y \<le> b) (melted_data g)))"
    by (simp only: grouped_df_year_change [OF assms] aggregate_def sel)
  from groupby_mean_value [OF this]
  show "MeanValue x =
              (let vs = map (the \<circ> Value)
                          (filter (\<lambda>r. Value r \<noteq> None)
                             (filter (\<lambda>r. group_key r = group_key x)
                                (filter (\<lambda>r. \<exists>y. Year r = Some y \<and> a \<le> y \<and> y \<le> b)
                                   (melted_data g))))
               in if vs = [] then None else Some (sum_list vs / of_nat (length vs)))"
    by (simp only: mean_written_out)
next
  let ?f = "\<lparr>Country = ''France'', Features = ''imports'', Region = ''Europe''\<rparr>"
  let ?k = "(''France'', ''Europe'', ''imports'')"
  let ?melted = "melted_data (startup data)"
  let ?row = "\<lambda>c. \<lparr>Country = ''France'', Features = ''imports'', Region = ''Europe'',
                     Year = to_numeric (fst c), Value = snd c ! length before\<rparr>"
  let ?sel = "\<lambda>r::int option row. isin (Year r) [Some 2020, Some 2021]"
  assume h: "idents data = before @ ?f # after
          \<and> (\<forall>i \<in> set before \<union> set after. group_key i \<noteq> ?k)
          \<and> year_columns data = cs1 @ (''2020'', c2020) # cs2 @ (''2021'', c2021) # cs3
          \<and> (\<forall>c \<in> set (cs1 @ cs2 @ cs3).
                to_numeric (fst c) \<noteq> Some 2020 \<and> to_numeric (fst c) \<noteq> Some 2021)
          \<and> (\<forall>c \<in> set (year_columns data). length (snd c) = length (idents data))
          \<and> c2020 ! length before = Some 10
          \<and> c2021 ! length before = Some 20"
  have kf: "group_key ?f = ?k" by (simp add: group_key_def)
  have others: "\<forall>i \<in> set before \<union> set after. group_key i \<noteq> group_key ?f"
    using h kf by simp
  have rows: "filter (\<lambda>r. group_key r = ?k) ?melted = map ?row (year_columns data)"
    using melted_key_rows [of data before ?f after] h others kf by simp
  have out: "filter ?sel (map ?row cs) = []"
    if "\<forall>c \<in> set cs. to_numeric (fst c) \<noteq> Some 2020 \<and> to_numeric (fst c) \<noteq> Some 2021" for cs
    using that by (induction cs) (auto simp: isin_def)
  have o1: "filter ?sel (map ?row cs1) = []" using h by (intro out) simp
  have o2: "filter ?sel (map ?row cs2) = []" using h by (intro out) simp
  have o3: "filter ?sel (map ?row cs3) = []" using h by (intro out) simp
  have cols: "year_columns data = cs1 @ (''2020'', c2020) # cs2 @ (''2021'', c2021) # cs3"
    using h by simp
  have "filter (\<lambda>r. group_key r = ?k) (filter ?sel ?melted)
          = filter ?sel (filter (\<lambda>r. group_key r = ?k) ?melted)"
    by (simp add: conj_commute)
  also have "\<dots> = [?row (''2020'', c2020), ?row (''2021'', c2021)]"
    unfolding rows cols
    by (simp add: o1 o2 o3) (simp add: isin_def to_numeric_examples)
  finally have vals: "map Value (filter (\<lambda>r. group_key r = ?k) (filter ?sel ?melted))
          = [Some 10, Some 20]"
    using h by simp
  have key: "?k \<in> group_key ` set (filter ?sel ?melted)"
  proof -
    have "filter (\<lambda>r. group_key r = ?k) (filter ?sel ?melted) \<noteq> []"
      using vals by auto
    then obtain r where "r \<in> set (filter ?sel ?melted)" and "group_key r = ?k"
      by (auto simp: filter_empty_conv)
    then show ?thesis by (auto simp: image_iff)
  qed
  have m: "mean (map Value (filter (\<lambda>r. group_key r = ?k) (filter ?sel ?melted))) = Some 15"
    unfolding vals by (simp add: mean_def)
  have df: "grouped_df (fst (update_treemap (startup data) triggered_id searched
                                     selected_value (2020, 2021)))
              = groupby_mean (filter ?sel ?melted)"
    by (simp add: grouped_df_year_change [OF assms] aggregate_def)
  from groupby_mean_memI [OF key m]
  show "\<lparr>Country = ''France'', Features = ''imports'', Region = ''Europe'', MeanValue = Some 15\<rparr>
          \<in> set (grouped_df (fst (update_treemap (startup data) triggered_id searched
                                    selected_value (2020, 2021))))"
    unfolding df by simp
qed

text \<open>
  In the table of the witness the row of France has 100 under 2019, so the mean over all
  years at start is 130 / 3 and the selection matters.
\<close>

theorem aggregate_mean_of_selected_years_witness:
  "\<lparr>Country = ''France'', Features = ''imports'', Region = ''Europe'', MeanValue = Some 15\<rparr>
     \<in> set (grouped_df (fst (update_treemap (startup three_year_wide) (Some ''year-slider'') None
                               ''net consumption'' (2020, 2021))))
   \<and> grouped_df (startup three_year_wide)
     = [\<lparr>Country = ''France'', Features = ''exports'', Region = ''Europe'',
          MeanValue = Some 2\<rparr>,
        \<lparr>Country = ''France'', Features = ''imports'', Region = ''Europe'',
          MeanValue = Some (130 / 3)\<rparr>,
        \<lparr>Country = ''Germany'', Features = ''imports'', Region = ''Europe'',
          MeanValue = Some 8\<rparr>]"
proof -
  have t1: "Some ''year-slider'' \<noteq> Some ''treemap-search''" by simp
  have t2: "Some ''year-slider'' \<noteq> Some ''treemap-choice''" by simp
  have y: "to_numeric ''2019'' = Some 2019" by (simp add: to_numeric_defs)
  note scenario = aggregate_mean_of_selected_years [OF t1 t2,
      where data = three_year_wide
        and before = "[\<lparr>Country = ''Germany'', Features = ''imports'', Region = ''Europe''\<rparr>]"
        and after = "[\<lparr>Country = ''France'', Features = ''exports'', Region = ''Europe''\<rparr>]"
        and ?cs1.0 = "[(''2019'', [Some 7, Some 100, Some 1])]"
        and ?c2020.0 = "[Some 8, Some 10, None]"
        and ?cs2.0 = "[]"
        and ?c2021.0 = "[Some 9, Some 20, Some 3]"
        and ?cs3.0 = "[]"
        and searched = None and selected_value = "''net consumption''",
      THEN conjunct2]
  have "\<lparr>Country = ''France'', Features = ''imports'', Region = ''Europe'', MeanValue = Some 15\<rparr>
     \<in> set (grouped_df (fst (update_treemap (startup three_year_wide) (Some ''year-slider'') None
                               ''net consumption'' (2020, 2021))))"
    by (rule scenario [THEN mp]) (simp add: three_year_wide_def group_key_def y)
  then show ?thesis by (simp add: grouped_three_year_wide)
qed

section \<open>The melted table\<close>

text \<open>
  C3, as the code has it: for a wide table with N identity rows and Y year columns, each of
  N cells, the long table has exactly N times Y rows. Every year column contributes N rows
  whose Year is the coercion of its header; where the header is not a number that Year is
  missing, and the rows are kept.
\<close>

theorem melt_row_count:
  assumes "\<forall>c \<in> set (year_columns data). length (snd c) = length (idents data)"
  shows "length (melted_data (startup data)) = length (idents data) * length (year_columns data)
       \<and> map Year (melted_data (startup data))
           = concat (map (\<lambda>c. replicate (length (idents data)) (to_numeric (fst c)))
                         (year_columns data))"
proof -
  have "length (melt data) = length (idents data) * length (year_columns data)"
    unfolding melt_def using assms by (intro length_melt) simp_all
  moreover have "map Year (coerce_year (melt data))
           = concat (map (\<lambda>c. replicate (length (idents data)) (to_numeric (fst c)))
                         (year_columns data))"
    unfolding melt_def using assms by (rule years_melt)
  ultimately show ?thesis
    by (simp add: startup_def Let_def coerce_year_def)
qed

theorem melt_row_count_witness:
  "length (melted_data (startup text_header_wide)) = 1 * 2
   \<and> map Year (melted_data (startup text_header_wide)) = [Some 2020, None]"
proof -
  have h: "\<forall>c \<in> set (year_columns text_header_wide).
             length (snd c) = length (idents text_header_wide)"
    by (simp add: text_header_wide_def)
  from melt_row_count [OF h] show ?thesis
    by (simp add: text_header_wide_def to_numeric_examples)
qed

text \<open>
  C3 as stated fails: the header \<open>abc\<close> is not a number, and the row of its column is
  still in the long table, with a missing Year.
\<close>

theorem melt_keeps_unparsed_header_rows:
  "to_numeric ''abc'' = None
   \<and> melted_data (startup text_header_wide)
     = [\<lparr>Country = ''France'', Features = ''imports'', Region = ''Europe'',
          Year = Some 2020, Value = Some 1\<rparr>,
        \<lparr>Country = ''France'', Features = ''imports'', Region = ''Europe'',
          Year = None, Value = Some 2\<rparr>]"
  by (simp add: melted_text_header_wide to_numeric_examples)

section \<open>The country charts\<close>

text \<open>
  C7, as the code has it: for every long table and year set, the bar, line and pie
  selectors return an empty dataset when no row of the table has the given country. That
  covers the empty string whenever no row has an empty Country.
\<close>

theorem selectors_empty_when_no_row_matches:
  assumes "\<forall>r \<in> set melted. Country r \<noteq> country"
  shows "create_barchart g melted country = []
       \<and> create_dotplot g melted country = []
       \<and> create_piechart g melted country = []"
  unfolding create_barchart_def create_dotplot_def create_piechart_def
  by (simp add: filter_zip_no_country [OF assms] dropna_def)

theorem selectors_empty_when_no_row_matches_witness:
  "create_barchart (startup example_wide) (melted_data (startup example_wide)) ''Atlantis'' = []
   \<and> create_dotplot (startup example_wide) (melted_data (startup example_wide)) ''Atlantis'' = []
   \<and> create_piechart (startup example_wide) (melted_data (startup example_wide)) ''Atlantis'' = []"
proof -
  have h: "\<forall>r \<in> set (melted_data (startup example_wide)). Country r \<noteq> ''Atlantis''"
    by (simp add: melted_example_wide)
  from selectors_empty_when_no_row_matches [OF h] show ?thesis .
qed

text \<open>
  C7 as stated fails for the empty string: in a table whose Country cells are empty, the
  three selectors called with the empty string return the rows of that country.
\<close>

theorem selectors_nonempty_for_blank_country:
  "create_barchart (startup blank_country_wide) (melted_data (startup blank_country_wide)) []
     = [\<lparr>Country = [], Features = ''imports'', Region = ''Europe'',
          Year = Some 2020, Value = Some 1\<rparr>]
   \<and> create_dotplot (startup blank_country_wide) (melted_data (startup blank_country_wide)) []
     = [\<lparr>Country = [], Features = ''net generation'', Region = ''Europe'',
          Year = Some 2020, Value = Some 2\<rparr>]
   \<and> create_piechart (startup blank_country_wide) (melted_data (startup blank_country_wide)) []
     = [\<lparr>Country = [], Features = ''imports'', Region = ''Europe'',
          Year = Some 2020, Value = Some 1\<rparr>,
        \<lparr>Country = [], Features = ''net generation'', Region = ''Europe'',
          Year = Some 2020, Value = Some 2\<rparr>]"
  by (simp add: melted_blank_country_wide years_startup create_barchart_def create_dotplot_def
      create_piechart_def dropna_def isin_def unique_def)

section \<open>The treemap\<close>

text \<open>
  C4, evaluated where the code departs from it: Trinidad and Tobago is in the country
  vocabulary and has an aggregate row for the current feature, but the handler filters on
  the title-cased name, which no row carries, and the treemap is empty.
\<close>

theorem search_title_case_mismatch:
  "in_countries (Some ''Trinidad and Tobago'') (startup example_wide)
   \<and> title ''Trinidad and Tobago'' = ''Trinidad And Tobago''
   \<and> create_treemap (grouped_df (startup example_wide)) (treemap_value (startup example_wide))
     = [\<lparr>Country = ''Trinidad and Tobago'', Features = ''net consumption'',
          Region = ''Central & South America'', MeanValue = Some (17 / 2)\<rparr>]
   \<and> fst (snd (update_treemap (startup example_wide) (Some ''treemap-search'')
                 (Some ''Trinidad and Tobago'') ''net consumption'' (1980, 2021))) = []"
  by (simp add: in_countries_def set_unique melted_example_wide grouped_example_wide
      treemap_value_startup title_trinidad update_treemap_def searched_tree_def create_treemap_def
      Let_def)

text \<open>
  C5, as the code has it: for a search string that is not in the country vocabulary,
  whatever triggered the handler, \<open>update_treemap\<close> returns what it returns for an unset
  search, and the treemap is the whole aggregate (recomputed first on a year-range change)
  filtered to the current feature (the chosen one on a feature-choice change). That is also
  what it returns for the empty search string, provided no country name is empty.
\<close>

theorem unmatched_search_falls_back:
  assumes "s \<notin> set (map Country (melted_data g))"
  shows "update_treemap g triggered_id (Some s) selected_value selected_range
           = update_treemap g triggered_id None selected_value selected_range
       \<and> fst (snd (update_treemap g triggered_id (Some s) selected_value selected_range))
           = filter (\<lambda>r. Features r = (if triggered_id = Some ''treemap-choice''
                                        then selected_value else treemap_value g))
               (if triggered_id = Some ''treemap-search'' \<or> triggered_id = Some ''treemap-choice''
                then grouped_df g
                else aggregate (melted_data g)
                       (map Some [fst selected_range .. snd selected_range]))
       \<and> ([] \<notin> set (map Country (melted_data g)) \<longrightarrow>
            update_treemap g triggered_id (Some s) selected_value selected_range
              = update_treemap g triggered_id (Some []) selected_value selected_range)"
  using assms
  by (simp add: update_treemap_def Let_def searched_tree_def in_countries_def set_unique
      create_treemap_def)

theorem unmatched_search_falls_back_witness:
  "update_treemap (startup example_wide) (Some ''treemap-search'') (Some ''Atlantis'')
        ''net consumption'' (2020, 2021)
     = update_treemap (startup example_wide) (Some ''treemap-search'') None
        ''net consumption'' (2020, 2021)
   \<and> fst (snd (update_treemap (startup example_wide) (Some ''treemap-search'') (Some ''Atlantis'')
        ''net consumption'' (2020, 2021)))
     = [\<lparr>Country = ''Trinidad and Tobago'', Features = ''net consumption'',
          Region = ''Central & South America'', MeanValue = Some (17 / 2)\<rparr>]
   \<and> update_treemap (startup example_wide) (Some ''treemap-search'') (Some ''Atlantis'')
        ''net consumption'' (2020, 2021)
     = update_treemap (startup example_wide) (Some ''treemap-search'') (Some [])
        ''net consumption'' (2020, 2021)"
proof -
  have h: "''Atlantis'' \<notin> set (map Country (melted_data (startup example_wide)))"
    by (simp add: melted_example_wide)
  have e: "[] \<notin> set (map Country (melted_data (startup example_wide)))"
    by (simp add: melted_example_wide)
  note t = unmatched_search_falls_back [OF h, of "Some ''treemap-search''" "''net consumption''"
      "(2020, 2021)"]
  from t have a: "update_treemap (startup example_wide) (Some ''treemap-search'') (Some ''Atlantis'')
        ''net consumption'' (2020, 2021)
     = update_treemap (startup example_wide) (Some ''treemap-search'') None
        ''net consumption'' (2020, 2021)" by blast
  from t [THEN conjunct2, THEN conjunct1]
  have b: "fst (snd (update_treemap (startup example_wide) (Some ''treemap-search'')
        (Some ''Atlantis'') ''net consumption'' (2020, 2021)))
     = [\<lparr>Country = ''Trinidad and Tobago'', Features = ''net consumption'',
          Region = ''Central & South America'', MeanValue = Some (17 / 2)\<rparr>]"
    by (simp add: grouped_example_wide treemap_value_startup)
  from t e have c: "update_treemap (startup example_wide) (Some ''treemap-search'') (Some ''Atlantis'')
        ''net consumption'' (2020, 2021)
     = update_treemap (startup example_wide) (Some ''treemap-search'') (Some [])
        ''net consumption'' (2020, 2021)" by blast
  from a b c show ?thesis by blast
qed

text \<open>
  C5 as stated fails for the empty search string: in a table with an empty Country the
  empty string is in the vocabulary, and the treemap for it holds the rows of that country
  only, not the whole aggregate that an unmatched string gets.
\<close>

theorem empty_search_differs_from_unmatched:
  "fst (snd (update_treemap (startup blank_and_france_wide) (Some ''treemap-search'')
               (Some ''Atlantis'') ''net consumption'' (2020, 2020)))
     = [\<lparr>Country = [], Features = ''net consumption'', Region = ''Europe'',
          MeanValue = Some 1\<rparr>,
        \<lparr>Country = ''France'', Features = ''net consumption'', Region = ''Europe'',
          MeanValue = Some 2\<rparr>]
   \<and> fst (snd (update_treemap (startup blank_and_france_wide) (Some ''treemap-search'')
               (Some []) ''net consumption'' (2020, 2020)))
     = [\<lparr>Country = [], Features = ''net consumption'', Region = ''Europe'',
          MeanValue = Some 1\<rparr>]"
  by (simp add: update_treemap_def Let_def searched_tree_def in_countries_def set_unique
      create_treemap_def melted_blank_and_france_wide grouped_blank_and_france_wide
      treemap_value_startup title_empty)

text \<open>
  C2, as the code has it: a feature-choice change leaves the figures of the bar, line and
  pie charts as they were, sets \<open>treemap_value\<close> to the chosen feature and changes no other
  module variable, and redraws the treemap; it also sets the style of all three charts to
  hidden and clears the status text.
\<close>

theorem feature_choice_change_effect:
  "country_barchart_figure (snd (feature_choice_change v s)) = country_barchart_figure (snd s)
   \<and> country_dotplot_figure (snd (feature_choice_change v s)) = country_dotplot_figure (snd s)
   \<and> country_piechart_figure (snd (feature_choice_change v s)) = country_piechart_figure (snd s)
   \<and> fst (feature_choice_change v s) = (fst s)\<lparr>treemap_value := v\<rparr>
   \<and> treemap_choice_value (snd (feature_choice_change v s)) = v
   \<and> main_treemap_figure (snd (feature_choice_change v s))
       = searched_tree ((fst s)\<lparr>treemap_value := v\<rparr>) (treemap_search_value (snd s))
   \<and> country_barchart_style (snd (feature_choice_change v s)) = [(''display'', ''none'')]
   \<and> country_dotplot_style (snd (feature_choice_change v s)) = [(''display'', ''none'')]
   \<and> country_piechart_style (snd (feature_choice_change v s)) = [(''display'', ''none'')]
   \<and> test_text_children (snd (feature_choice_change v s)) = []"
  by (simp add: feature_choice_change_def fire_update_treemap_def update_treemap_def Let_def)

text \<open>
  C2 as stated fails: after a click on France the three charts are shown, and the
  feature-choice change that follows hides them.
\<close>

theorem feature_choice_hides_charts:
  "country_barchart_style (snd (treemap_click france_click (page_load (startup example_wide))))
     = [(''display'', ''block'')]
   \<and> country_barchart_style
       (snd (feature_choice_change ''imports''
              (treemap_click france_click (page_load (startup example_wide)))))
     = [(''display'', ''none'')]
   \<and> country_dotplot_style (snd (treemap_click france_click (page_load (startup example_wide))))
     = [(''display'', ''block'')]
   \<and> country_dotplot_style
       (snd (feature_choice_change ''imports''
              (treemap_click france_click (page_load (startup example_wide)))))
     = [(''display'', ''none'')]
   \<and> country_piechart_style (snd (treemap_click france_click (page_load (startup example_wide))))
     = [(''display'', ''block'')]
   \<and> country_piechart_style
       (snd (feature_choice_change ''imports''
              (treemap_click france_click (page_load (startup example_wide)))))
     = [(''display'', ''none'')]"
proof -
  have "''France'' \<in> set (map Country (melted_data (fst (page_load (startup example_wide)))))"
    by (simp add: melted_data_page_load melted_example_wide)
  note shown = treemap_click_shows_charts [OF clicked_label_examples(1) this]
  show ?thesis
    by (simp add: shown feature_choice_change_def fire_update_treemap_def update_treemap_def
        Let_def)
qed

section \<open>The click handler\<close>

text \<open>
  C8: when the click payload is absent, or reading \<open>points[0][label]\<close> from it raises,
  \<open>update_country_graphs\<close> returns normally, with the outputs of a call with no payload:
  an empty status text, all three charts hidden, and the figures of the empty country.
\<close>

theorem malformed_click_is_no_selection:
  assumes "selected_data = None \<or> (\<exists>sd. selected_data = Some sd \<and> isl (clicked_label sd))"
  shows "update_country_graphs g selected_data = update_country_graphs g None
       \<and> update_country_graphs g selected_data =
           ([],
            [(''display'', ''none'')], create_barchart g (melted_data g) [],
            [(''display'', ''none'')], create_dotplot g (melted_data g) [],
            [(''display'', ''none'')], create_piechart g (melted_data g) [])"
  using assms by (auto simp: update_country_graphs_def isl_def)

theorem malformed_click_is_no_selection_witness:
  "isl (clicked_label unlabelled_click)
   \<and> update_country_graphs (startup example_wide) (Some unlabelled_click)
       = update_country_graphs (startup example_wide) None
   \<and> update_country_graphs (startup example_wide) (Some unlabelled_click) =
           ([],
            [(''display'', ''none'')],
            create_barchart (startup example_wide) (melted_data (startup example_wide)) [],
            [(''display'', ''none'')],
            create_dotplot (startup example_wide) (melted_data (startup example_wide)) [],
            [(''display'', ''none'')],
            create_piechart (startup example_wide) (melted_data (startup example_wide)) [])"
proof -
  have h: "isl (clicked_label unlabelled_click)" by (simp add: clicked_label_examples)
  then have "Some unlabelled_click = None
      \<or> (\<exists>sd. Some unlabelled_click = Some sd \<and> isl (clicked_label sd))" by simp
  from h malformed_click_is_no_selection [OF this] show ?thesis by blast
qed

text \<open>
  C9: a click whose label is a region name of the table and not a country name hides the
  three charts and sets the status text to \<open>Selected Region:\<close> followed by the name.
\<close>

theorem click_on_region:
  assumes "clicked_label sd = Inr name"
    and "name \<in> set (map Region (melted_data g))"
    and "name \<notin> set (map Country (melted_data g))"
  shows "update_country_graphs g (Some sd) =
           (''Selected Region: '' @ name,
            [(''display'', ''none'')], create_barchart g (melted_data g) name,
            [(''display'', ''none'')], create_dotplot g (melted_data g) name,
            [(''display'', ''none'')], create_piechart g (melted_data g) name)"
  using assms by (simp add: update_country_graphs_def set_unique)

theorem click_on_region_witness:
  "clicked_label europe_click = Inr ''Europe''
   \<and> ''Europe'' \<in> set (map Region (melted_data (startup example_wide)))
   \<and> ''Europe'' \<notin> set (map Country (melted_data (startup example_wide)))
   \<and> update_country_graphs (startup example_wide) (Some europe_click) =
           (''Selected Region: '' @ ''Europe'',
            [(''display'', ''none'')],
            create_barchart (startup example_wide) (melted_data (startup example_wide)) ''Europe'',
            [(''display'', ''none'')],
            create_dotplot (startup example_wide) (melted_data (startup example_wide)) ''Europe'',
            [(''display'', ''none'')],
            create_piechart (startup example_wide) (melted_data (startup example_wide)) ''Europe'')"
proof -
  have h1: "clicked_label europe_click = Inr ''Europe''" by (simp add: clicked_label_examples)
  have h2: "''Europe'' \<in> set (map Region (melted_data (startup example_wide)))"
    by (simp add: melted_example_wide)
  have h3: "''Europe'' \<notin> set (map Country (melted_data (startup example_wide)))"
    by (simp add: melted_example_wide)
  from h1 h2 h3 click_on_region [OF h1 h2 h3] show ?thesis by blast
qed

text \<open>
  C10: a click whose label is a country name of the table shows the three charts, fills
  them with the results of the bar, line and pie selectors for that country, and sets the
  status text to a down arrow, \<open>Statistics for selected country:\<close> and the name, with a
  second arrow at the end.
\<close>

theorem click_on_country:
  assumes "clicked_label sd = Inr name"
    and "name \<in> set (map Country (melted_data g))"
  shows "update_country_graphs g (Some sd) =
           (down_arrow @ '' Statistics for selected country: '' @ name @ '' '' @ down_arrow,
            [(''display'', ''block'')], create_barchart g (melted_data g) name,
            [(''display'', ''block'')], create_dotplot g (melted_data g) name,
            [(''display'', ''block'')], create_piechart g (melted_data g) name)"
  using assms by (simp add: update_country_graphs_def set_unique)

theorem click_on_country_witness:
  "clicked_label france_click = Inr ''France''
   \<and> ''France'' \<in> set (map Country (melted_data (startup example_wide)))
   \<and> update_country_graphs (startup example_wide) (Some france_click) =
           (down_arrow @ '' Statistics for selected country: '' @ ''France'' @ '' '' @ down_arrow,
            [(''display'', ''block'')],
            create_barchart (startup example_wide) (melted_data (startup example_wide)) ''France'',
            [(''display'', ''block'')],
            create_dotplot (startup example_wide) (melted_data (startup example_wide)) ''France'',
            [(''display'', ''block'')],
            create_piechart (startup example_wide) (melted_data (startup example_wide)) ''France'')"
proof -
  have h1: "clicked_label france_click = Inr ''France''" by (simp add: clicked_label_examples)
  have h2: "''France'' \<in> set (map Country (melted_data (startup example_wide)))"
    by (simp add: melted_example_wide)
  from h1 h2 click_on_country [OF h1 h2] show ?thesis by blast
qed

end
